theory Spec2Isabelle
  imports Complex_Main "HOL-Library.Stream" "HOL-Library.AList"
begin

section \<open>The procedural maze generator\<close>

text \<open>
  A shallow embedding of \<^verbatim>\<open>procedural_maze_generator.py\<close>.

  \<^item> A Python string is the list of its code points, which are natural numbers. The ASCII
    text of the source's literals is written \<open>lit ''...''\<close>; the three non-ASCII characters
    of the literals are given by their code points.
  \<^item> \<open>str.upper()\<close> and \<open>str.lower()\<close> are the interpreter's. On an ASCII string they
    shift the letters \<open>a-z\<close> and \<open>A-Z\<close>; on any other string they apply the case
    mapping of the Unicode database, which is no part of the program and is a parameter
    \<open>ucd\<close> of the model.
  \<^item> A Python float is a double and is modelled by its value, a rational.
    \<open>random.random()\<close> is \<open>k / 2^53\<close> for a \<open>k < 2^53\<close>; a float literal is the double
    nearest to it; the product \<open>node.depth * 0.2\<close> is rounded as the machine rounds it.
    The ratios of a configuration are finite numbers.
  \<^item> The module-wide random source is a stream of raw draws. Every call of the
    \<open>random\<close> module consumes one element and derives its result from it, so every
    result the call can have is the result for some stream.
  \<^item> Nodes are objects shared between the tree and \<open>all_nodes\<close>. Every node is
    appended to \<open>all_nodes\<close> when it is created, so a node's address is its index in
    \<open>all_nodes\<close>, and \<open>children\<close> holds such indices.
  \<^item> An exception is \<open>Inl\<close> of a sum; a computation that does not return is
    \<open>None\<close>. The interpreter's limits on memory and on the depth of its call stack are
    not modelled.
\<close>

subsection \<open>Strings\<close>

type_synonym str = "nat list"

text \<open>\<open>ord(c)\<close> for an ASCII character, and an ASCII literal.\<close>

definition ord :: "char \<Rightarrow> nat" where
  "ord c = of_char c"

definition lit :: "string \<Rightarrow> str" where
  "lit cs = map ord cs"

definition is_ascii :: "str \<Rightarrow> bool" where
  "is_ascii s = list_all (\<lambda>c. c < 128) s"

definition ascii_upper :: "nat \<Rightarrow> nat" where
  "ascii_upper c = (if 97 \<le> c \<and> c \<le> 122 then c - 32 else c)"

definition ascii_lower :: "nat \<Rightarrow> nat" where
  "ascii_lower c = (if 65 \<le> c \<and> c \<le> 90 then c + 32 else c)"

text \<open>
  The case mapping of the interpreter's Unicode database, for strings that are not ASCII:
  what \<open>s.upper()\<close> and \<open>s.lower()\<close> return for such a string \<open>s\<close>.
\<close>

record unicode =
  do_upper :: "str \<Rightarrow> str"
  do_lower :: "str \<Rightarrow> str"

text \<open>\<open>s.upper()\<close> and \<open>s.lower()\<close>\<close>

definition upper :: "unicode \<Rightarrow> str \<Rightarrow> str" where
  "upper ucd s = (if is_ascii s then map ascii_upper s else do_upper ucd s)"

definition lower :: "unicode \<Rightarrow> str \<Rightarrow> str" where
  "lower ucd s = (if is_ascii s then map ascii_lower s else do_lower ucd s)"




text \<open>\<open>str(n)\<close> for an integer: its decimal digits.\<close>

definition digit_char :: "nat \<Rightarrow> nat" where
  "digit_char d = 48 + d"

function str_nat :: "nat \<Rightarrow> str" where
  "str_nat n = (if n < 10 then [digit_char n] else str_nat (n div 10) @ [digit_char (n mod 10)])"
  by pat_completeness auto
termination
  by (relation "measure id") auto

declare str_nat.simps [simp del]




definition division_sign :: str where
  "division_sign = [0xF7]"


subsection \<open>Errors\<close>


subsection \<open>Floats\<close>






definition float_0_4 :: rat where
  "float_0_4 = 3602879701896397 / 2 ^ 53"

definition float_0_6 :: rat where
  "float_0_6 = 5404319552844595 / 2 ^ 53"

subsection \<open>The random source\<close>

type_synonym rng = "nat stream"






subsection \<open>Data model\<close>

datatype DifficultyLevel = EASY | MEDIUM | HARD | EXPERT


datatype PuzzleType = COORDINATES | RIDDLE | PATTERN | MATH | LOGIC


record MazeConfig =
  depth :: int
  branching_factor :: int
  difficulty :: DifficultyLevel
  red_herring_ratio :: rat
  puzzle_density :: rat
  treasure_name :: str
  theme :: str
  enable_coordinates :: bool
  enable_riddles :: bool
  enable_math :: bool

text \<open>The defaults of the dataclass.\<close>

definition default_config :: MazeConfig where
  "default_config =
     \<lparr>depth = 5, branching_factor = 3, difficulty = MEDIUM, red_herring_ratio = float_0_4,
      puzzle_density = float_0_6, treasure_name = lit ''GOLDEN_IDOL'', theme = lit ''fantasy'',
      enable_coordinates = True, enable_riddles = True, enable_math = False\<rparr>"

text \<open>
  A node. \<open>children\<close> are indices into \<open>all_nodes\<close>; \<open>files\<close> is the dict in
  insertion order. The field \<open>node_depth\<close> is the source's \<open>depth\<close>.
\<close>

record MazeNode =
  name :: str
  path :: str
  node_depth :: nat
  is_treasure_path :: bool
  children :: "nat list"
  files :: "(str \<times> str) list"
  puzzle_type :: "PuzzleType option"
  clue_content :: str
  red_herring :: bool








text \<open>
  The generator's mutable state, together with the random source it draws from. The
  configuration is never assigned and is passed beside it.
\<close>

record generator =
  treasure_path :: "str list"
  all_nodes :: "MazeNode list"
  rng :: rng

subsection \<open>The treasure path\<close>



definition get_solution_path :: "generator \<Rightarrow> str list" where
  "get_solution_path g = treasure_path g"

subsection \<open>Growing the tree\<close>






subsection \<open>Clues\<close>





text \<open>\<^verbatim>\<open>{chr(i): i-64 for i in range(65, 91)}\<close>: the keys are strings of one character.\<close>

definition letter_values :: "str \<rightharpoonup> nat" where
  "letter_values = map_of (map (\<lambda>i. ([i], i - 64)) [65..<91])"

text \<open>
  \<open>_generate_math_clue\<close>. \<open>target_name[0]\<close> is the string of the first character, and
  \<open>target_name[0].upper()\<close> may be any string.
\<close>

definition generate_math_clue :: "unicode \<Rightarrow> str \<Rightarrow> str" where
  "generate_math_clue ucd target_name =
     (case target_name of
        [] \<Rightarrow> lit ''Calculate the path to '' @ upper ucd target_name
      | c # _ \<Rightarrow>
          (case letter_values (upper ucd [c]) of
             Some target_value \<Rightarrow>
               (let equation = str_nat (target_value * 2) @ lit '' '' @ division_sign @
                               lit '' 2 = '' @ str_nat target_value @ lit '' = '' @
                               upper ucd [c]
                in lit ''Solve: '' @ equation @ lit ''. First letter of your destination.'')
           | None \<Rightarrow> lit ''Calculate the path to '' @ upper ucd target_name))"








subsection \<open>Red herrings\<close>








subsection \<open>Generation and the accessors\<close>


record maze_stats =
  total_nodes :: nat
  treasure_path_nodes :: nat
  red_herring_nodes :: nat
  total_files :: nat
  max_depth :: int
  stats_theme :: str
  solution_path :: "str list"

text \<open>
  \<open>get_maze_stats\<close>, as a step on the generator's state like the methods above: the
  dict it returns and the state it leaves.
\<close>

definition get_maze_stats :: "MazeConfig \<Rightarrow> generator \<Rightarrow> maze_stats \<times> generator" where
  "get_maze_stats cfg g =
     (let treasure_nodes = length (filter is_treasure_path (all_nodes g));
          red_herring_nodes = length (filter red_herring (all_nodes g));
          total_files = sum_list (map (\<lambda>node. length (files node)) (all_nodes g))
      in (\<lparr>total_nodes = length (all_nodes g),
           treasure_path_nodes = treasure_nodes,
           red_herring_nodes = red_herring_nodes,
           total_files = total_files,
           max_depth = depth cfg,
           stats_theme = theme cfg,
           solution_path = treasure_path g\<rparr>, g))"

section \<open>Verification\<close>

subsection \<open>Evaluation\<close>

text \<open>The initial state of a generator over a given random source.\<close>

definition fresh :: "rng \<Rightarrow> generator" where
  "fresh r = \<lparr>treasure_path = [], all_nodes = [], rng = r\<rparr>"

text \<open>
  Three rows of the Unicode case mapping, for the examples: the upper case of U+0131
  (dotless i) is \<open>I\<close>, that of U+017F (long s) is \<open>S\<close>, and U+00E9 and U+00C9 (e and E with
  acute) are each other's case. On strings of these characters and ASCII characters,
  \<open>str.upper()\<close> and \<open>str.lower()\<close> work character by character.
\<close>

definition ucd_rows :: unicode where
  "ucd_rows =
     \<lparr>do_upper = map (\<lambda>c. if c = 0x131 then 0x49 else if c = 0x17F then 0x53
                           else if c = 0xE9 then 0xC9 else ascii_upper c),
      do_lower = map (\<lambda>c. if c = 0xC9 then 0xE9 else ascii_lower c)\<rparr>"

lemmas str_eval =
  lit_def ord_def str_nat.simps digit_char_def division_sign_def is_ascii_def ascii_upper_def
  ascii_lower_def upper_def lower_def

subsection \<open>The MATH clue\<close>

lemma letter_values_upt: "\<forall>v \<in> set [0..<26]. letter_values [65 + v] = Some (v + 1)"
  by (simp add: letter_values_def upt_conv_Cons)

lemma letter_values_Some: "v < 26 \<Longrightarrow> letter_values [65 + v] = Some (v + 1)"
  using letter_values_upt by simp

lemma letter_values_None: "(letter_values s = None) = (\<forall>v<26. s \<noteq> [65 + v])"
proof -
  have "letter_values s = None \<longleftrightarrow> s \<notin> fst ` set (map (\<lambda>i. ([i], i - 64)) [65..<91::nat])"
    unfolding letter_values_def by (rule map_of_eq_None_iff)
  also have "fst ` set (map (\<lambda>i. ([i], i - 64)) [65..<91::nat]) = (\<lambda>i. [i]) ` {65..<91}"
    by (simp only: set_map image_image fst_conv set_upt)
  also have "s \<notin> (\<lambda>i. [i::nat]) ` {65..<91} \<longleftrightarrow> (\<forall>v<26. s \<noteq> [65 + v])"
  proof
    assume a: "s \<notin> (\<lambda>i. [i::nat]) ` {65..<91}"
    show "\<forall>v<26. s \<noteq> [65 + v]"
    proof (intro allI impI notI)
      fix v :: nat
      assume "v < 26" "s = [65 + v]"
      then have "s \<in> (\<lambda>i. [i::nat]) ` {65..<91}" by simp
      with a show False ..
    qed
  next
    assume b: "\<forall>v<26. s \<noteq> [65 + v]"
    show "s \<notin> (\<lambda>i. [i::nat]) ` {65..<91}"
    proof
      assume "s \<in> (\<lambda>i. [i::nat]) ` {65..<91}"
      then obtain i :: nat where i: "s = [i]" "65 \<le> i" "i < 91" by auto
      then have "i - 65 < 26" "s = [65 + (i - 65)]" by simp_all
      with b show False by blast
    qed
  qed
  finally show ?thesis .
qed

lemma upper_ascii_letter:
  "v < 26 \<Longrightarrow> c = 97 + v \<or> c = 65 + v \<Longrightarrow> upper ucd [c] = [65 + v]"
  by (auto simp: upper_def is_ascii_def ascii_upper_def)

lemma math_clue_equation:
  assumes "v < 26" and "upper ucd [c] = [65 + v]"
  shows "generate_math_clue ucd (c # rest) =
    lit ''Solve: '' @ str_nat (2 * (v + 1)) @ lit '' '' @ division_sign @ lit '' 2 = '' @
    str_nat (v + 1) @ lit '' = '' @ [65 + v] @ lit ''. First letter of your destination.''"
  using assms letter_values_Some[of v]
  by (simp add: generate_math_clue_def mult.commute)

lemma math_clue_fallback:
  assumes "\<forall>v<26. upper ucd [c] \<noteq> [65 + v]"
  shows "generate_math_clue ucd (c # rest) = lit ''Calculate the path to '' @ upper ucd (c # rest)"
proof -
  from assms have "letter_values (upper ucd [c]) = None" by (simp only: letter_values_None)
  then show ?thesis by (simp add: generate_math_clue_def)
qed

text \<open>
  Claim C7, as the code has it. The first character counts through its upper case,
  \<open>target_name[0].upper()\<close>. When that is the letter at position \<open>v + 1\<close> of \<open>A\<close> to \<open>Z\<close>,
  which is so for the ASCII letters in either case and for any other character the Unicode
  table maps to such a letter, the clue is \<open>Solve: 2(v+1) / 2 = v+1 = LETTER\<close>: the doubled
  position, halved, is the position. For \<open>Cavern\<close> the result is 3. For the empty name, and
  for a first character whose upper case is no letter of \<open>A\<close> to \<open>Z\<close>, the clue is
  \<open>Calculate the path to NAME\<close>, the name upper-cased.
\<close>

theorem math_clue_first_letter:
  "generate_math_clue ucd (lit ''Cavern'') =
     lit ''Solve: 6 '' @ division_sign @ lit '' 2 = 3 = C. First letter of your destination.'' \<and>
   (\<forall>v c rest. v < 26 \<and> (c = 97 + v \<or> c = 65 + v \<or> upper ucd [c] = [65 + v]) \<longrightarrow>
      generate_math_clue ucd (c # rest) =
        lit ''Solve: '' @ str_nat (2 * (v + 1)) @ lit '' '' @ division_sign @ lit '' 2 = '' @
        str_nat (v + 1) @ lit '' = '' @ [65 + v] @ lit ''. First letter of your destination.'' \<and>
      (2 * (v + 1)) div 2 = v + 1) \<and>
   generate_math_clue ucd [] = lit ''Calculate the path to '' \<and>
   (\<forall>c rest. (\<forall>v<26. upper ucd [c] \<noteq> [65 + v]) \<longrightarrow>
      generate_math_clue ucd (c # rest) = lit ''Calculate the path to '' @ upper ucd (c # rest))"
proof (intro conjI allI impI)
  have "generate_math_clue ucd (67 # lit ''avern'') =
    lit ''Solve: '' @ str_nat (2 * (2 + 1)) @ lit '' '' @ division_sign @ lit '' 2 = '' @
    str_nat (2 + 1) @ lit '' = '' @ [65 + 2] @ lit ''. First letter of your destination.''"
    by (rule math_clue_equation) (simp_all add: upper_def is_ascii_def ascii_upper_def)
  then show "generate_math_clue ucd (lit ''Cavern'') =
     lit ''Solve: 6 '' @ division_sign @ lit '' 2 = 3 = C. First letter of your destination.''"
    by (simp add: lit_def ord_def str_nat.simps digit_char_def)
next
  fix v c :: nat and rest
  assume h: "v < 26 \<and> (c = 97 + v \<or> c = 65 + v \<or> upper ucd [c] = [65 + v])"
  then have "upper ucd [c] = [65 + v]" using upper_ascii_letter[of v c ucd] by blast
  with h show "generate_math_clue ucd (c # rest) =
        lit ''Solve: '' @ str_nat (2 * (v + 1)) @ lit '' '' @ division_sign @ lit '' 2 = '' @
        str_nat (v + 1) @ lit '' = '' @ [65 + v] @ lit ''. First letter of your destination.''"
    by (simp add: math_clue_equation)
next
  fix v :: nat
  show "(2 * (v + 1)) div 2 = v + 1" by simp
next
  show "generate_math_clue ucd [] = lit ''Calculate the path to ''"
    by (simp add: generate_math_clue_def upper_def is_ascii_def)
next
  fix c rest
  assume "\<forall>v<26. upper ucd [c] \<noteq> [65 + v]"
  then show "generate_math_clue ucd (c # rest) =
      lit ''Calculate the path to '' @ upper ucd (c # rest)"
    by (rule math_clue_fallback)
qed

theorem math_clue_first_letter_witness:
  "generate_math_clue ucd_rows (lit ''cavern'') =
     lit ''Solve: 6 '' @ division_sign @ lit '' 2 = 3 = C. First letter of your destination.'' \<and>
   upper ucd_rows [0x17F] = [65 + 18] \<and>
   generate_math_clue ucd_rows (0x17F # lit ''ea'') =
     lit ''Solve: 38 '' @ division_sign @ lit '' 2 = 19 = S. First letter of your destination.'' \<and>
   generate_math_clue ucd_rows (lit ''_x'') = lit ''Calculate the path to _X''"
proof -
  have a: "(2::nat) < 26 \<and> ((99::nat) = 97 + 2 \<or> (99::nat) = 65 + 2 \<or>
             upper ucd_rows [99] = [65 + 2])"
    by simp
  have b: "(18::nat) < 26 \<and> ((0x17F::nat) = 97 + 18 \<or> (0x17F::nat) = 65 + 18 \<or>
             upper ucd_rows [0x17F] = [65 + 18])"
    by (simp add: upper_def is_ascii_def ucd_rows_def)
  have c: "\<forall>v<26. upper ucd_rows [95] \<noteq> [65 + v]"
    by (simp add: upper_def is_ascii_def ascii_upper_def)
  from math_clue_first_letter [of ucd_rows] a
  have 1: "generate_math_clue ucd_rows (99 # lit ''avern'') =
        lit ''Solve: '' @ str_nat (2 * (2 + 1)) @ lit '' '' @ division_sign @ lit '' 2 = '' @
        str_nat (2 + 1) @ lit '' = '' @ [65 + 2] @ lit ''. First letter of your destination.''"
    by blast
  from math_clue_first_letter [of ucd_rows] b
  have 2: "generate_math_clue ucd_rows (0x17F # lit ''ea'') =
        lit ''Solve: '' @ str_nat (2 * (18 + 1)) @ lit '' '' @ division_sign @ lit '' 2 = '' @
        str_nat (18 + 1) @ lit '' = '' @ [65 + 18] @ lit ''. First letter of your destination.''"
    by blast
  from math_clue_first_letter [of ucd_rows] c
  have 3: "generate_math_clue ucd_rows (95 # lit ''x'') =
        lit ''Calculate the path to '' @ upper ucd_rows (95 # lit ''x'')"
    by blast
  from b have 4: "upper ucd_rows [0x17F] = [65 + 18]" by simp
  from 1 2 3 4 show ?thesis
    by (simp add: str_eval)
qed

text \<open>
  The claim as stated fails in both directions. U+00E9 is an alphabetic character, and the
  clue for a name that begins with it is the fallback; U+0131 is none of the letters \<open>a\<close> to
  \<open>z\<close> and \<open>A\<close> to \<open>Z\<close>, which are the characters with an alphabet position, and the clue for
  a name that begins with it is the equation for \<open>I\<close>.
\<close>

theorem math_clue_counterexample:
  "generate_math_clue ucd_rows (0xE9 # lit ''clair'') =
     lit ''Calculate the path to '' @ [0xC9] @ lit ''CLAIR'' \<and>
   generate_math_clue ucd_rows (0x131 # lit ''ce'') =
     lit ''Solve: 18 '' @ division_sign @ lit '' 2 = 9 = I. First letter of your destination.''"
  by (simp add: generate_math_clue_def letter_values_def upt_conv_Cons ucd_rows_def str_eval)

subsection \<open>Statistics\<close>

text \<open>
  Claim C9. \<open>get_maze_stats\<close> leaves the generator's state as it found it, so a second
  call returns what the first returned; the result holds the number of nodes, the number of
  nodes flagged \<open>is_treasure_path\<close>, the number flagged \<open>red_herring\<close>, the sum of the
  nodes' file counts, and the stored treasure path.
\<close>

theorem stats_read_only:
  "snd (get_maze_stats cfg g) = g \<and>
   get_maze_stats cfg (snd (get_maze_stats cfg g)) = get_maze_stats cfg g \<and>
   total_nodes (fst (get_maze_stats cfg g)) = length (all_nodes g) \<and>
   treasure_path_nodes (fst (get_maze_stats cfg g)) =
     card {i. i < length (all_nodes g) \<and> is_treasure_path (all_nodes g ! i)} \<and>
   red_herring_nodes (fst (get_maze_stats cfg g)) =
     card {i. i < length (all_nodes g) \<and> red_herring (all_nodes g ! i)} \<and>
   total_files (fst (get_maze_stats cfg g)) =
     (\<Sum>i = 0..<length (all_nodes g). length (files (all_nodes g ! i))) \<and>
   solution_path (fst (get_maze_stats cfg g)) = treasure_path g"
proof -
  have "sum_list (map (\<lambda>node. length (files node)) (all_nodes g)) =
        (\<Sum>i = 0..<length (all_nodes g). length (files (all_nodes g ! i)))"
    by (simp add: sum_list_sum_nth)
  then show ?thesis
    by (simp add: get_maze_stats_def Let_def length_filter_conv_card)
qed

theorem stats_read_only_witness:
  "snd (get_maze_stats default_config (fresh (sconst 0))) = fresh (sconst 0) \<and>
   total_nodes (fst (get_maze_stats default_config (fresh (sconst 0)))) = 0 \<and>
   treasure_path_nodes (fst (get_maze_stats default_config (fresh (sconst 0)))) = 0 \<and>
   solution_path (fst (get_maze_stats default_config (fresh (sconst 0)))) = []"
  using stats_read_only [of default_config "fresh (sconst 0)"] by (simp add: fresh_def)

subsection \<open>Unknown theme\<close>





end
